theory Spec2Isabelle
  imports Main
begin

section \<open>JavaScript values that reach the connection code\<close>

text \<open>
  A JavaScript \<open>number\<close> is a double. The connection code only asks of a number whether
  it is a safe integer, whether it is truthy, and how it compares with another number,
  so a double is one of: an integer of magnitude at most \<open>2^53 - 1\<close> (every such
  integer is a double, exactly), \<open>NaN\<close>, a double that is not an integer (a fraction or
  an infinity), or an integer-valued double of magnitude \<open>2^53\<close> or more.
\<close>

datatype number = Integral int | NaN | Fraction | Huge

definition MAX_SAFE_INTEGER :: int where
  "MAX_SAFE_INTEGER = 9007199254740991"

fun isSafeInteger :: "number \<Rightarrow> bool" where
  "isSafeInteger (Integral n) = (\<bar>n\<bar> \<le> MAX_SAFE_INTEGER)"
| "isSafeInteger NaN = False"
| "isSafeInteger Fraction = False"
| "isSafeInteger Huge = False"

text \<open>
  The mathematical integer that \<open>parseInt\<close> reads becomes a double: itself when it is
  safe, and otherwise its rounding, which has magnitude \<open>2^53\<close> or more.
\<close>

definition toNumber :: "int \<Rightarrow> number" where
  "toNumber n = (if \<bar>n\<bar> \<le> MAX_SAFE_INTEGER then Integral n else Huge)"

text \<open>
  \<open>parseInt(string)\<close> with no radix, as ECMAScript defines it: leading white space is
  dropped, then one optional sign, then an optional \<open>0x\<close> or \<open>0X\<close> (which selects
  radix 16), then the longest run of digits of the radix; what follows the digits is
  ignored, and no digit at all gives \<open>NaN\<close>. Strings are lists of code units below 256.
\<close>

definition isWhiteSpace :: "char \<Rightarrow> bool" where
  "isWhiteSpace ch = (of_char ch \<in> {9, 10, 11, 12, 13, 32, 160 :: nat})"

definition digitValue :: "char \<Rightarrow> nat option" where
  "digitValue ch =
     (let k = (of_char ch :: nat) in
      if 48 \<le> k \<and> k \<le> 57 then Some (k - 48)
      else if 97 \<le> k \<and> k \<le> 122 then Some (k - 87)
      else if 65 \<le> k \<and> k \<le> 90 then Some (k - 55)
      else None)"

definition isDigitOf :: "nat \<Rightarrow> char \<Rightarrow> bool" where
  "isDigitOf radix ch = (case digitValue ch of None \<Rightarrow> False | Some d \<Rightarrow> d < radix)"

definition digitsValue :: "nat \<Rightarrow> string \<Rightarrow> nat" where
  "digitsValue radix ds = foldl (\<lambda>acc ch. acc * radix + the (digitValue ch)) 0 ds"

definition parseInt :: "string \<Rightarrow> number" where
  "parseInt inputString =
     (let s = dropWhile isWhiteSpace inputString;
          sign = (if s \<noteq> [] \<and> hd s = CHR ''-'' then - 1 else 1 :: int);
          s = (if s \<noteq> [] \<and> (hd s = CHR ''+'' \<or> hd s = CHR ''-'') then tl s else s);
          hex = (take 2 s = ''0x'' \<or> take 2 s = ''0X'');
          radix = (if hex then 16 else 10 :: nat);
          s = (if hex then drop 2 s else s);
          z = takeWhile (isDigitOf radix) s
      in if z = [] then NaN else toNumber (sign * int (digitsValue radix z)))"

section \<open>Errors, replies and the world outside the client\<close>

text \<open>
  \<open>BadResource\<close> is \<open>Deno.errors.BadResource\<close>; \<open>TypeError\<close> is what a method call on
  an undefined field raises; \<open>Error\<close> carries the message of any other error.
\<close>

datatype error = BadResource | TypeError | Error string

datatype raw = Status string | Integer int | Bulk "string option" | Array "raw list"

datatype arg = ArgString string | ArgNumber int

text \<open>
  What the client does to the outside, in the order it does it. A socket is named by
  the time at which it was dialled. The writes of the two flags are part of the trace,
  so that their place among the calls can be read off.
\<close>

datatype event =
    Connect string int
  | ConnectTls string int
  | Send nat string "arg list"
  | Exec string "arg list"
  | CloseSocket nat
  | SetClosed bool
  | SetConnected bool
  | Wait nat

datatype response = Return raw | Raise error

text \<open>
  \<open>Deno.connect\<close>, \<open>Deno.connectTls\<close>, \<open>sendCommand\<close> and the executor's \<open>exec\<close> (both
  of \<open>io.ts\<close>) and \<open>Closer.close\<close> are not part of \<open>redis.ts\<close>: the outcome of each call
  is a parameter, given by \<open>answers\<close> from the time of the call and the call itself.
\<close>

record world =
  answers :: "nat \<Rightarrow> event \<Rightarrow> response"
  clock :: nat
  trace :: "event list"

definition call :: "world \<Rightarrow> event \<Rightarrow> response \<times> world" where
  "call w e = (answers w (clock w) e, w\<lparr>clock := Suc (clock w), trace := trace w @ [e]\<rparr>)"

definition emit :: "world \<Rightarrow> event \<Rightarrow> world" where
  "emit w e = w\<lparr>trace := trace w @ [e]\<rparr>"

section \<open>The connection\<close>

text \<open>
  The \<open>port\<close> argument is a string, a number, undefined, or a value of another type,
  kept by the name that \<open>typeof\<close> gives it.
\<close>

datatype portlike = PortString string | PortNumber number | PortUndefined | PortOther string

text \<open>
  \<open>type RedisConnectionOptions\<close>; a field that is absent is \<open>None\<close>. \<open>db\<close> and
  \<open>maxRetryCount\<close> are integers, as the options are documented; such a number is
  falsy exactly when it is 0.
\<close>

record RedisConnectionOptions =
  opt_tls :: "bool option"
  opt_db :: "int option"
  opt_password :: "string option"
  opt_name :: "string option"
  opt_maxRetryCount :: "int option"

text \<open>
  The fields of \<open>class RedisConnection\<close>. \<open>hostname\<close>, \<open>port\<close> and \<open>options\<close> are the
  constructor's arguments, which \<open>connectThunkified\<close> closes over. \<open>closer\<close>, \<open>reader\<close>
  and \<open>writer\<close> are assigned together from one \<open>Deno.Conn\<close>, so one field holds the
  socket, \<open>None\<close> while they are undefined. \<open>executor\<close> holds the second argument of
  \<open>muxExecutor(this, this.maxRetryCount > 0)\<close>.
\<close>

record RedisConnection =
  hostname :: string
  port :: portlike
  options :: RedisConnectionOptions
  name :: "string option"
  closer :: "nat option"
  executor :: "bool option"
  isConnected :: bool
  isClosed :: bool
  maxRetryCount :: int
  retryCount :: int

text \<open>An \<open>async\<close> method gives its result or its error, the connection and the world.\<close>

type_synonym 'a outcome = "(error + 'a) \<times> RedisConnection \<times> world"

definition parsePortLike :: "portlike \<Rightarrow> error + number" where
  "parsePortLike p =
     (case p of
        PortString s \<Rightarrow> Inr (parseInt s)
      | PortNumber n \<Rightarrow> Inr n
      | PortUndefined \<Rightarrow> Inr (Integral 6379)
      | PortOther ty \<Rightarrow> Inl (Error (''port is invalid: typeof='' @ ty)))"

text \<open>
  \<open>sendCommand(writer, reader, command, ...args)\<close> of \<open>io.ts\<close>, on the socket that the
  writer and the reader belong to: one call to the outside.
\<close>

definition sendCommand :: "world \<Rightarrow> nat \<Rightarrow> string \<Rightarrow> arg list \<Rightarrow> (error + raw) \<times> world" where
  "sendCommand w sock command args =
     (case call w (Send sock command args) of
        (Return r, w') \<Rightarrow> (Inr r, w')
      | (Raise e, w') \<Rightarrow> (Inl e, w'))"

text \<open>
  \<open>close()\<close>: both flags are assigned, then \<open>closer.close()\<close> is called; only
  \<open>BadResource\<close> is caught.
\<close>

definition close :: "RedisConnection \<Rightarrow> world \<Rightarrow> unit outcome" where
  "close c w =
     (let c = c\<lparr>isClosed := True\<rparr>; w = emit w (SetClosed True);
          c = c\<lparr>isConnected := False\<rparr>; w = emit w (SetConnected False)
      in case closer c of
           None \<Rightarrow> (Inl TypeError, c, w)
         | Some sock \<Rightarrow>
             (case call w (CloseSocket sock) of
                (Return r, w') \<Rightarrow> (Inr (), c, w')
              | (Raise e, w') \<Rightarrow>
                  if e = BadResource then (Inr (), c, w') else (Inl e, c, w')))"

text \<open>
  \<open>Deno.connect(dialOpts)\<close> or \<open>Deno.connectTls(dialOpts)\<close>; the socket it returns is
  named by the time of the call.
\<close>

definition dial :: "world \<Rightarrow> bool \<Rightarrow> string \<Rightarrow> int \<Rightarrow> (error + nat) \<times> world" where
  "dial w useTls host portNumber =
     (case call w (if useTls then ConnectTls host portNumber else Connect host portNumber) of
        (Return r, w') \<Rightarrow> (Inr (clock w), w')
      | (Raise e, w') \<Rightarrow> (Inl e, w'))"

definition authenticate :: "RedisConnection \<Rightarrow> world \<Rightarrow> string \<Rightarrow> (error + raw) \<times> world" where
  "authenticate c w password =
     (case closer c of
        None \<Rightarrow> (Inl TypeError, w)
      | Some sock \<Rightarrow> sendCommand w sock ''AUTH'' [ArgString password])"

definition selectDb :: "RedisConnection \<Rightarrow> world \<Rightarrow> int option \<Rightarrow> (error + raw) \<times> world" where
  "selectDb c w databaseIndex =
     (let databaseIndex = (case databaseIndex of None \<Rightarrow> opt_db (options c) | Some d \<Rightarrow> Some d)
      in case databaseIndex of
           None \<Rightarrow> (Inl (Error ''The database index is undefined.''), w)
         | Some d \<Rightarrow>
             if d = 0 then (Inl (Error ''The database index is undefined.''), w)
             else (case closer c of
                     None \<Rightarrow> (Inl TypeError, w)
                   | Some sock \<Rightarrow> sendCommand w sock ''SELECT'' [ArgNumber d]))"

text \<open>The body of the \<open>try\<close> block of the connect thunk: AUTH, then SELECT.\<close>

definition handshake :: "RedisConnection \<Rightarrow> world \<Rightarrow> (error + unit) \<times> world" where
  "handshake c w =
     (case (case opt_password (options c) of
              None \<Rightarrow> (Inr (), w)
            | Some password \<Rightarrow>
                (case authenticate c w password of
                   (Inl e, w') \<Rightarrow> (Inl e, w')
                 | (Inr r, w') \<Rightarrow> (Inr (), w'))) of
        (Inl e, w1) \<Rightarrow> (Inl e, w1)
      | (Inr u, w1) \<Rightarrow>
          (case opt_db (options c) of
             None \<Rightarrow> (Inr (), w1)
           | Some d \<Rightarrow>
               if d = 0 then (Inr (), w1)
               else (case selectDb c w1 (Some d) of
                       (Inl e, w2) \<Rightarrow> (Inl e, w2)
                     | (Inr r, w2) \<Rightarrow> (Inr (), w2))))"

text \<open>
  The assignments of the connect thunk between the dial and the \<open>try\<close> block. A string
  is truthy when it is not empty, a number when it is not zero.
\<close>

definition adopt :: "RedisConnection \<Rightarrow> world \<Rightarrow> nat \<Rightarrow> RedisConnection \<times> world" where
  "adopt c w sock =
     (let c = (case opt_name (options c) of
                 None \<Rightarrow> c
               | Some n \<Rightarrow> if n \<noteq> [] then c\<lparr>name := Some n\<rparr> else c);
          c = (case opt_maxRetryCount (options c) of
                 None \<Rightarrow> c
               | Some m \<Rightarrow> if m \<noteq> 0 then c\<lparr>maxRetryCount := m\<rparr> else c);
          c = c\<lparr>closer := Some sock\<rparr>;
          c = c\<lparr>executor := Some (maxRetryCount c > 0)\<rparr>;
          c = c\<lparr>isClosed := False\<rparr>; w = emit w (SetClosed False);
          c = c\<lparr>isConnected := True\<rparr>; w = emit w (SetConnected True)
      in (c, w))"

definition connectThunkified :: "RedisConnection \<Rightarrow> world \<Rightarrow> unit outcome" where
  "connectThunkified c w =
     (case parsePortLike (port c) of
        Inl e \<Rightarrow> (Inl e, c, w)
      | Inr p \<Rightarrow>
          if \<not> isSafeInteger p then (Inl (Error ''deno-redis: opts.port is invalid''), c, w)
          else
            (case p of
               Integral portNumber \<Rightarrow>
                 (case dial w (opt_tls (options c) = Some True) (hostname c) portNumber of
                    (Inl e, w1) \<Rightarrow> (Inl e, c, w1)
                  | (Inr sock, w1) \<Rightarrow>
                      (case adopt c w1 sock of
                         (c2, w2) \<Rightarrow>
                           (case handshake c2 w2 of
                              (Inr u, w3) \<Rightarrow> (Inr (), c2, w3)
                            | (Inl error, w3) \<Rightarrow>
                                (case close c2 w3 of
                                   (Inl e, c4, w4) \<Rightarrow> (Inl e, c4, w4)
                                 | (Inr u, c4, w4) \<Rightarrow> (Inl error, c4, w4)))))
             | _ \<Rightarrow> (Inl (Error ''deno-redis: opts.port is invalid''), c, w)))"

definition new_RedisConnection :: "string \<Rightarrow> portlike \<Rightarrow> RedisConnectionOptions \<Rightarrow> RedisConnection" where
  "new_RedisConnection host p opts =
     \<lparr>hostname = host, port = p, options = opts, name = None, closer = None,
      executor = None, isConnected = False, isClosed = False,
      maxRetryCount = 0, retryCount = 0\<rparr>"

text \<open>\<open>RedisConnection.connect\<close>.\<close>

definition connect_method :: "RedisConnection \<Rightarrow> world \<Rightarrow> unit outcome" where
  "connect_method c w = connectThunkified c w"

text \<open>
  The exported \<open>connect\<close>: its parameter list gives \<open>port\<close> the default 6379 when it is
  undefined. On success the caller gets the client that wraps the connection.
\<close>

definition connect :: "string \<Rightarrow> portlike \<Rightarrow> RedisConnectionOptions \<Rightarrow> world \<Rightarrow> unit outcome" where
  "connect host p opts w =
     (let p = (case p of PortUndefined \<Rightarrow> PortNumber (Integral 6379) | _ \<Rightarrow> p)
      in connect_method (new_RedisConnection host p opts) w)"

section \<open>Reconnecting\<close>

text \<open>
  \<open>reconnect()\<close> hands an \<open>async\<close> callback to \<open>setInterval\<close>, and nothing awaits a run
  of the callback: the timer fires again every 1200 ms until \<open>clearInterval\<close>, whether or
  not earlier runs have finished, so runs overlap when a dial or a command is slow.
  A run is therefore cut at each of its \<open>await\<close>s. A task is a run that is suspended
  at an \<open>await\<close>, named by what it does when it goes on:
  \<^item> \<open>AfterGuardClose\<close>: the ceiling was passed and \<open>await this.close()\<close> of the guard
    returned; next come \<open>clearInterval\<close>, \<open>reject\<close> and the \<open>try\<close> block;
  \<^item> \<open>AfterClose\<close>: \<open>await this.close()\<close> of the \<open>try\<close> block returned; next comes
    \<open>this.connect()\<close>;
  \<^item> \<open>DialDone sock r\<close>: the connect thunk waits for \<open>Deno.connect\<close>, whose outcome
    is \<open>r\<close> and whose socket is \<open>sock\<close>;
  \<^item> \<open>AuthDone r\<close>, \<open>SelectDone r\<close>: the connect thunk waits for AUTH or SELECT;
  \<^item> \<open>AfterConnect\<close>: \<open>await this.connect()\<close> returned; next comes the PING;
  \<^item> \<open>PingDone r\<close>: the run waits for the PING;
  \<^item> \<open>Finally\<close>: an error is on its way to the empty \<open>catch\<close>; next comes the
    \<open>finally\<close> block.
\<close>

datatype task =
    AfterGuardClose
  | AfterClose
  | DialDone nat response
  | AuthDone "error + raw"
  | SelectDone "error + raw"
  | AfterConnect
  | PingDone "error + raw"
  | Finally

text \<open>
  The state of the retry loop: the connection (\<open>this\<close>, shared by all runs), the world,
  whether the interval is still set, the suspended runs, and the promise that
  \<open>reconnect()\<close> returned, \<open>None\<close> while it is pending.
\<close>

record loop =
  conn :: RedisConnection
  wld :: world
  timer :: bool
  tasks :: "task list"
  promise :: "(error + unit) option"

text \<open>\<open>resolve\<close> and \<open>reject\<close>: a promise keeps the first value it is settled with.\<close>

definition settle :: "(error + unit) option \<Rightarrow> error + unit \<Rightarrow> (error + unit) option" where
  "settle p v = (case p of None \<Rightarrow> Some v | Some x \<Rightarrow> Some x)"

definition suspend :: "loop \<Rightarrow> task \<Rightarrow> loop" where
  "suspend st t = st\<lparr>tasks := tasks st @ [t]\<rparr>"

text \<open>The \<open>finally\<close> block: \<open>this.retryCount++\<close>.\<close>

definition finally_block :: "loop \<Rightarrow> loop" where
  "finally_block st = st\<lparr>conn := (conn st)\<lparr>retryCount := retryCount (conn st) + 1\<rparr>\<rparr>"

text \<open>
  The start of the \<open>try\<close> block: \<open>await this.close()\<close>. \<open>close()\<close> runs at once; when it
  raises, the empty \<open>catch\<close> and the \<open>finally\<close> block follow at once.
\<close>

definition try_close :: "loop \<Rightarrow> loop" where
  "try_close st =
     (case close (conn st) (wld st) of
        (Inl e, c1, w1) \<Rightarrow> finally_block (st\<lparr>conn := c1, wld := w1\<rparr>)
      | (Inr u, c1, w1) \<Rightarrow> suspend (st\<lparr>conn := c1, wld := w1\<rparr>) AfterClose)"

text \<open>
  The timer fires: a new run of the callback, up to its first \<open>await\<close>. The guard is
  checked first; when \<open>close()\<close> raises inside the guard, the run ends there, before
  \<open>clearInterval\<close> and \<open>reject\<close>, and its error is nobody's.
\<close>

definition fire :: "loop \<Rightarrow> loop" where
  "fire st =
     (let st = st\<lparr>wld := emit (wld st) (Wait 1200)\<rparr> in
      if retryCount (conn st) > maxRetryCount (conn st) then
        (case close (conn st) (wld st) of
           (Inl e, c1, w1) \<Rightarrow> st\<lparr>conn := c1, wld := w1\<rparr>
         | (Inr u, c1, w1) \<Rightarrow> suspend (st\<lparr>conn := c1, wld := w1\<rparr>) AfterGuardClose)
      else try_close st)"

text \<open>
  \<open>this.connect()\<close>, up to the dial: the connect thunk parses and checks the port and
  calls \<open>Deno.connect\<close> or \<open>Deno.connectTls\<close>.
\<close>

definition start_connect :: "loop \<Rightarrow> loop" where
  "start_connect st =
     (case parsePortLike (port (conn st)) of
        Inl e \<Rightarrow> suspend st Finally
      | Inr p \<Rightarrow>
          if \<not> isSafeInteger p then suspend st Finally
          else
            (case p of
               Integral portNumber \<Rightarrow>
                 (let ev = (if opt_tls (options (conn st)) = Some True
                            then ConnectTls (hostname (conn st)) portNumber
                            else Connect (hostname (conn st)) portNumber)
                  in case call (wld st) ev of
                       (r, w1) \<Rightarrow> suspend (st\<lparr>wld := w1\<rparr>) (DialDone (clock (wld st)) r))
             | _ \<Rightarrow> suspend st Finally))"

text \<open>
  The connect thunk after AUTH: SELECT when a database is set and not zero, on the
  reader and writer that the connection has by then; otherwise the thunk returns.
\<close>

definition start_select :: "loop \<Rightarrow> loop" where
  "start_select st =
     (case opt_db (options (conn st)) of
        None \<Rightarrow> suspend st AfterConnect
      | Some d \<Rightarrow>
          if d = 0 then suspend st AfterConnect
          else (case selectDb (conn st) (wld st) (Some d) of
                  (r, w1) \<Rightarrow> suspend (st\<lparr>wld := w1\<rparr>) (SelectDone r)))"

text \<open>
  The connect thunk after the dial: the assignments, then AUTH when a password is set.
\<close>

definition start_handshake :: "loop \<Rightarrow> nat \<Rightarrow> loop" where
  "start_handshake st sock =
     (case adopt (conn st) (wld st) sock of
        (c2, w2) \<Rightarrow>
          (case opt_password (options c2) of
             None \<Rightarrow> start_select (st\<lparr>conn := c2, wld := w2\<rparr>)
           | Some password \<Rightarrow>
               (case authenticate c2 w2 password of
                  (r, w3) \<Rightarrow> suspend (st\<lparr>conn := c2, wld := w3\<rparr>) (AuthDone r))))"

text \<open>
  The \<open>catch\<close> block of the connect thunk: \<open>this.close(); throw error\<close>. It closes what
  the connection holds by then, and an error leaves the thunk whatever \<open>close()\<close> does.
\<close>

definition handshake_failed :: "loop \<Rightarrow> loop" where
  "handshake_failed st =
     (case close (conn st) (wld st) of
        (r, c1, w1) \<Rightarrow> suspend (st\<lparr>conn := c1, wld := w1\<rparr>) Finally)"

text \<open>The PING of the \<open>try\<close> block, on the reader and writer of the connection by then.\<close>

definition start_ping :: "loop \<Rightarrow> loop" where
  "start_ping st =
     (case closer (conn st) of
        None \<Rightarrow> suspend st Finally
      | Some sock \<Rightarrow>
          (case sendCommand (wld st) sock ''PING'' [] of
             (r, w1) \<Rightarrow> suspend (st\<lparr>wld := w1\<rparr>) (PingDone r)))"

text \<open>
  The end of the \<open>try\<close> block after a PING that returned, and the \<open>finally\<close> block
  after it.
\<close>

definition reconnected :: "loop \<Rightarrow> loop" where
  "reconnected st =
     finally_block
       (st\<lparr>conn := (conn st)\<lparr>isConnected := True, retryCount := 0\<rparr>,
           wld := emit (wld st) (SetConnected True),
           timer := False,
           promise := settle (promise st) (Inr ())\<rparr>)"

text \<open>A suspended run goes on, up to its next \<open>await\<close> or to its end.\<close>

definition resume :: "loop \<Rightarrow> task \<Rightarrow> loop" where
  "resume st t =
     (case t of
        AfterGuardClose \<Rightarrow>
          try_close (st\<lparr>timer := False,
                        promise := settle (promise st) (Inl (Error ''Could not reconnect''))\<rparr>)
      | AfterClose \<Rightarrow> start_connect st
      | DialDone sock r \<Rightarrow>
          (case r of Raise e \<Rightarrow> suspend st Finally | Return x \<Rightarrow> start_handshake st sock)
      | AuthDone r \<Rightarrow>
          (case r of Inl e \<Rightarrow> handshake_failed st | Inr x \<Rightarrow> start_select st)
      | SelectDone r \<Rightarrow>
          (case r of Inl e \<Rightarrow> handshake_failed st | Inr x \<Rightarrow> suspend st AfterConnect)
      | AfterConnect \<Rightarrow> start_ping st
      | PingDone r \<Rightarrow> (case r of Inl e \<Rightarrow> finally_block st | Inr x \<Rightarrow> reconnected st)
      | Finally \<Rightarrow> finally_block st)"

text \<open>
  What happens next is the choice of the outside: the timer fires (while the interval
  is set), or the suspended run at some place in the list goes on (its call has
  completed, or its turn has come). Any order is possible; a choice that is not
  enabled changes nothing.
\<close>

datatype turn = Fire | Resume nat

definition step :: "loop \<Rightarrow> turn \<Rightarrow> loop" where
  "step st a =
     (case a of
        Fire \<Rightarrow> if timer st then fire st else st
      | Resume i \<Rightarrow>
          if i < length (tasks st)
          then resume (st\<lparr>tasks := take i (tasks st) @ drop (Suc i) (tasks st)\<rparr>) (tasks st ! i)
          else st)"

definition run_loop :: "loop \<Rightarrow> turn list \<Rightarrow> loop" where
  "run_loop st turns = foldl step st turns"



section \<open>Commands of the client\<close>

text \<open>
  The executor (\<open>muxExecutor\<close> of \<open>io.ts\<close>) is not part of \<open>redis.ts\<close>; the commands take
  its \<open>exec\<close> as a parameter. \<open>execStatusReply\<close> returns the reply part of what \<open>exec\<close>
  gives, unchecked.
\<close>

type_synonym 'a executor = "RedisConnection \<Rightarrow> world \<Rightarrow> string \<Rightarrow> arg list \<Rightarrow> 'a outcome"

text \<open>
  A client wraps a \<open>Connection\<close>, and there are two in \<open>redis.ts\<close>: the \<open>RedisConnection\<close>
  that \<open>connect\<close> makes, and the object that the exported \<open>create(closer, writer,
  reader, executor)\<close> makes, which holds the closer it was given. The latter's
  \<open>isConnected\<close> is always true and its \<open>isClosed\<close> always false, and its \<open>close()\<close> is
  \<open>closer.close()\<close> and nothing else: no flag is written and no error is caught.
\<close>

datatype connection = OfConnect RedisConnection | OfCreate nat

fun connection_isConnected :: "connection \<Rightarrow> bool" where
  "connection_isConnected (OfConnect c) = isConnected c"
| "connection_isConnected (OfCreate sock) = True"

fun connection_isClosed :: "connection \<Rightarrow> bool" where
  "connection_isClosed (OfConnect c) = isClosed c"
| "connection_isClosed (OfCreate sock) = False"

fun connection_close :: "connection \<Rightarrow> world \<Rightarrow> (error + unit) \<times> connection \<times> world" where
  "connection_close (OfConnect c) w = (case close c w of (r, c', w') \<Rightarrow> (r, OfConnect c', w'))"
| "connection_close (OfCreate sock) w =
     (case call w (CloseSocket sock) of
        (Return r, w') \<Rightarrow> (Inr (), OfCreate sock, w')
      | (Raise e, w') \<Rightarrow> (Inl e, OfCreate sock, w'))"

type_synonym 'a client_executor =
  "connection \<Rightarrow> world \<Rightarrow> string \<Rightarrow> arg list \<Rightarrow> (error + 'a) \<times> connection \<times> world"

definition execStatusReply ::
  "raw client_executor \<Rightarrow> connection \<Rightarrow> world \<Rightarrow> string \<Rightarrow> arg list \<Rightarrow> (error + raw) \<times> connection \<times> world" where
  "execStatusReply exec k w command args = exec k w command args"

text \<open>
  \<open>quit\<close>: \<open>execStatusReply("QUIT").finally(() => this.connection?.close())\<close>. The
  callback of \<open>finally\<close> runs on either outcome; when it raises, its error replaces the
  outcome.
\<close>

definition quit :: "raw client_executor \<Rightarrow> connection \<Rightarrow> world \<Rightarrow> (error + raw) \<times> connection \<times> world" where
  "quit exec k w =
     (case execStatusReply exec k w ''QUIT'' [] of
        (r, k1, w1) \<Rightarrow>
          (case connection_close k1 w1 of
             (Inl e, k2, w2) \<Rightarrow> (Inl e, k2, w2)
           | (Inr u, k2, w2) \<Rightarrow> (r, k2, w2)))"

text \<open>An array read at an index: the element, or \<open>undefined\<close> outside the array.\<close>

definition at :: "'a list \<Rightarrow> nat \<Rightarrow> 'a option" where
  "at arr i = (if i < length arr then Some (arr ! i) else None)"

text \<open>The \<open>for\<close> loop of \<open>pubsub_numsubs\<close>, from its index \<open>i\<close> and with \<open>ret\<close> so far.\<close>

function numsubs_loop :: "'a list \<Rightarrow> nat \<Rightarrow> ('a option \<times> 'a option) list \<Rightarrow> ('a option \<times> 'a option) list" where
  "numsubs_loop arr i ret =
     (if i < length arr then numsubs_loop arr (i + 2) (ret @ [(at arr i, at arr (i + 1))])
      else ret)"
  by pat_completeness auto
termination
  by (relation "measure (\<lambda>(arr, i, ret). length arr - i)") auto

declare numsubs_loop.simps [simp del]

definition pubsub_numsubs ::
  "'a list executor \<Rightarrow> RedisConnection \<Rightarrow> world \<Rightarrow> string list \<Rightarrow> ('a option \<times> 'a option) list outcome" where
  "pubsub_numsubs execArrayReply c w channels =
     (case execArrayReply c w ''PUBSUB'' (ArgString ''NUMSUBS'' # map ArgString channels) of
        (Inl e, c1, w1) \<Rightarrow> (Inl e, c1, w1)
      | (Inr arr, c1, w1) \<Rightarrow> (Inr (numsubs_loop arr 0 []), c1, w1))"

section \<open>Calling close several times\<close>

text \<open>
  \<open>close()\<close> called \<open>n\<close> times in a row by a caller that catches what a call raises.
\<close>

fun close_times :: "nat \<Rightarrow> RedisConnection \<Rightarrow> world \<Rightarrow> RedisConnection \<times> world" where
  "close_times 0 c w = (c, w)"
| "close_times (Suc n) c w = (case close c w of (r, c', w') \<Rightarrow> close_times n c' w')"

text \<open>What \<open>close()\<close> makes of the outcome of \<open>closer.close()\<close>, read off its \<open>catch\<close>.\<close>

definition closer_result :: "response \<Rightarrow> error + unit" where
  "closer_result a =
     (case a of Return r \<Rightarrow> Inr () | Raise e \<Rightarrow> if e = BadResource then Inr () else Inl e)"

section \<open>Concrete options and worlds\<close>

definition no_options :: RedisConnectionOptions where
  "no_options =
     \<lparr>opt_tls = None, opt_db = None, opt_password = None, opt_name = None,
      opt_maxRetryCount = None\<rparr>"

text \<open>A world where every call returns \<open>OK\<close>.\<close>

definition world_ok :: world where
  "world_ok = \<lparr>answers = (\<lambda>t e. Return (Status ''OK'')), clock = 0, trace = []\<rparr>"

text \<open>A world where closing a socket raises an I/O error and every other call returns.\<close>

definition world_close_fails :: world where
  "world_close_fails =
     \<lparr>answers = (\<lambda>t e. case e of CloseSocket s \<Rightarrow> Raise (Error ''EIO'') | _ \<Rightarrow> Return (Status ''OK'')),
      clock = 0, trace = []\<rparr>"

text \<open>A world where closing a socket finds it closed already.\<close>

definition world_already_closed :: world where
  "world_already_closed =
     \<lparr>answers = (\<lambda>t e. case e of CloseSocket s \<Rightarrow> Raise BadResource | _ \<Rightarrow> Return (Status ''OK'')),
      clock = 0, trace = []\<rparr>"

section \<open>Notions used to state the properties\<close>

text \<open>
  The retry ceiling a connection has once the connect thunk has assigned it: the
  option when it is truthy, the field's value otherwise.
\<close>

definition configured :: "RedisConnection \<Rightarrow> int" where
  "configured c =
     (case opt_maxRetryCount (options c) of
        None \<Rightarrow> maxRetryCount c
      | Some m \<Rightarrow> if m \<noteq> 0 then m else maxRetryCount c)"

text \<open>
  An executor that sends its command in one call and does no retry; it stands for
  \<open>muxExecutor\<close> where a concrete executor is needed.
\<close>

definition plain_exec :: "raw client_executor" where
  "plain_exec k w command args =
     (case call w (Exec command args) of
        (Return r, w') \<Rightarrow> (Inr r, k, w')
      | (Raise e, w') \<Rightarrow> (Inl e, k, w'))"

text \<open>The connection and the world after a successful \<open>connect\<close> with no options.\<close>

definition connected_ok :: "RedisConnection \<times> world" where
  "connected_ok = snd (connect ''redis'' PortUndefined no_options world_ok)"

definition connected_close_fails :: "RedisConnection \<times> world" where
  "connected_close_fails = snd (connect ''redis'' PortUndefined no_options world_close_fails)"

text \<open>An executor whose reply, when the call returns, is the given array.\<close>

definition array_exec :: "'a list \<Rightarrow> 'a list executor" where
  "array_exec arr c w command args =
     (case call w (Exec command args) of
        (Return r, w') \<Rightarrow> (Inr arr, c, w')
      | (Raise e, w') \<Rightarrow> (Inl e, c, w'))"

text \<open>
  The commands of the handshake that the options ask for, on the socket \<open>sock\<close>:
  AUTH when a password is set, SELECT when a database is set and is not zero.
\<close>

definition auth_commands :: "RedisConnectionOptions \<Rightarrow> nat \<Rightarrow> event list" where
  "auth_commands opts sock =
     (case opt_password opts of None \<Rightarrow> [] | Some password \<Rightarrow> [Send sock ''AUTH'' [ArgString password]])"

definition select_commands :: "RedisConnectionOptions \<Rightarrow> nat \<Rightarrow> event list" where
  "select_commands opts sock =
     (case opt_db opts of
        None \<Rightarrow> []
      | Some d \<Rightarrow> if d = 0 then [] else [Send sock ''SELECT'' [ArgNumber d]])"

text \<open>The dial that the options ask for: TLS when \<open>tls\<close> is true, TCP otherwise.\<close>

definition dial_event :: "RedisConnectionOptions \<Rightarrow> string \<Rightarrow> int \<Rightarrow> event" where
  "dial_event opts host n = (if opt_tls opts = Some True then ConnectTls host n else Connect host n)"

definition password_options :: RedisConnectionOptions where
  "password_options = no_options\<lparr>opt_password := Some ''secret''\<rparr>"

text \<open>A world where the server refuses every command and every other call returns.\<close>

definition world_auth_fails :: world where
  "world_auth_fails =
     \<lparr>answers = (\<lambda>t e. case e of Send s command args \<Rightarrow> Raise (Error ''WRONGPASS'')
                               | _ \<Rightarrow> Return (Status ''OK'')),
      clock = 0, trace = []\<rparr>"

text \<open>Every call of the list, made one after the other from time \<open>t\<close>, returns.\<close>

fun all_return :: "world \<Rightarrow> nat \<Rightarrow> event list \<Rightarrow> bool" where
  "all_return w t [] = True"
| "all_return w t (ev # evs) =
     (case answers w t ev of Return x \<Rightarrow> all_return w (Suc t) evs | Raise e \<Rightarrow> False)"

text \<open>The calls of the list made in order up to the first that raises.\<close>

fun call_all :: "world \<Rightarrow> event list \<Rightarrow> (error + unit) \<times> world" where
  "call_all w [] = (Inr (), w)"
| "call_all w (ev # evs) =
     (case call w ev of
        (Raise e, w') \<Rightarrow> (Inl e, w')
      | (Return r, w') \<Rightarrow> call_all w' evs)"

text \<open>The events of one call of \<open>close()\<close> on the connection.\<close>

definition closing :: "RedisConnection \<Rightarrow> event list" where
  "closing c =
     [SetClosed True, SetConnected False] @
     (case closer c of None \<Rightarrow> [] | Some sock \<Rightarrow> [CloseSocket sock])"

text \<open>Options with a retry ceiling of 5.\<close>

definition retry_options :: RedisConnectionOptions where
  "retry_options = no_options\<lparr>opt_maxRetryCount := Some 5\<rparr>"

text \<open>A world where the server answers no command before time 10 and answers from then on.\<close>

definition world_back_at_10 :: world where
  "world_back_at_10 =
     \<lparr>answers = (\<lambda>t e. case e of
                          Send s command args \<Rightarrow>
                            if t < 10 then Raise (Error ''ECONNRESET'') else Return (Status ''PONG'')
                        | _ \<Rightarrow> Return (Status ''OK'')),
      clock = 0, trace = []\<rparr>"

definition connected_back_at_10 :: "RedisConnection \<times> world" where
  "connected_back_at_10 = snd (connect ''redis'' PortUndefined retry_options world_back_at_10)"



section \<open>The executor, from the specification\<close>

text \<open>
  Modelled from the spec: the executor (\<open>muxExecutor\<close> of \<open>io.ts\<close>) is not part of
  \<open>redis.ts\<close>. A command is its list of tokens; a submission is a command with the
  caller that waits for its reply.
\<close>

type_synonym command = "string list"

type_synonym submission = "nat \<times> command"

text \<open>
  Modelled from the spec: the executor state of \<open>io.ts\<close>, which is missing. It holds
  the FIFO queue of pending submissions, the one exchange that is on the transport (if
  any), the server at the other end, and the completions signalled so far, in order.
\<close>

record 's executor_state =
  queue :: "submission list"
  in_flight :: "submission option"
  server :: 's
  completed :: "(submission \<times> raw) list"

text \<open>
  Modelled from the spec: the scheduling algorithm of the missing \<open>io.ts\<close>. A submit
  call enqueues at the tail. The dispatch loop, which alone owns the transport, pops the
  head of the queue and writes it when no exchange is on the transport, then decodes one
  reply and signals the completion of that submission with it. The server answers the
  commands in the order it gets them. Callers and the loop interleave in any order.
\<close>

datatype action = Submit nat command | Dispatch | Receive

definition exec_step ::
  "('s \<Rightarrow> command \<Rightarrow> raw \<times> 's) \<Rightarrow> 's executor_state \<Rightarrow> action \<Rightarrow> 's executor_state" where
  "exec_step serve st a =
     (case a of
        Submit caller cmd \<Rightarrow> st\<lparr>queue := queue st @ [(caller, cmd)]\<rparr>
      | Dispatch \<Rightarrow>
          (case (in_flight st, queue st) of
             (None, x # q) \<Rightarrow> st\<lparr>queue := q, in_flight := Some x\<rparr>
           | _ \<Rightarrow> st)
      | Receive \<Rightarrow>
          (case in_flight st of
             None \<Rightarrow> st
           | Some x \<Rightarrow>
               (case serve (server st) (snd x) of
                  (reply, s') \<Rightarrow>
                    st\<lparr>in_flight := None, server := s',
                       completed := completed st @ [(x, reply)]\<rparr>)))"

text \<open>Modelled from the spec: the missing executor starts with nothing queued or in flight.\<close>

definition exec_init :: "'s \<Rightarrow> 's executor_state" where
  "exec_init s0 = \<lparr>queue = [], in_flight = None, server = s0, completed = []\<rparr>"

text \<open>Modelled from the spec: the missing executor after a schedule of actions.\<close>

definition exec_run ::
  "('s \<Rightarrow> command \<Rightarrow> raw \<times> 's) \<Rightarrow> 's \<Rightarrow> action list \<Rightarrow> 's executor_state" where
  "exec_run serve s0 acts = foldl (exec_step serve) (exec_init s0) acts"

text \<open>The submissions of a schedule, in the order they were accepted.\<close>

fun submissions :: "action list \<Rightarrow> submission list" where
  "submissions [] = []"
| "submissions (Submit caller cmd # acts) = (caller, cmd) # submissions acts"
| "submissions (a # acts) = submissions acts"

text \<open>The replies of the server to a list of commands it gets in that order.\<close>

fun serve_all :: "('s \<Rightarrow> command \<Rightarrow> raw \<times> 's) \<Rightarrow> 's \<Rightarrow> command list \<Rightarrow> raw list \<times> 's" where
  "serve_all serve s [] = ([], s)"
| "serve_all serve s (cmd # cmds) =
     (case serve s cmd of
        (reply, s') \<Rightarrow> (case serve_all serve s' cmds of (replies, s'') \<Rightarrow> (reply # replies, s'')))"

text \<open>The invariant of the executor: nothing is lost or reordered, and replies are the server's.\<close>

definition exec_inv :: "('s \<Rightarrow> command \<Rightarrow> raw \<times> 's) \<Rightarrow> 's \<Rightarrow> submission list \<Rightarrow> 's executor_state \<Rightarrow> bool" where
  "exec_inv serve s0 subs st =
     (map fst (completed st) @ (case in_flight st of None \<Rightarrow> [] | Some x \<Rightarrow> [x]) @ queue st = subs \<and>
      serve_all serve s0 (map (snd \<circ> fst) (completed st)) = (map snd (completed st), server st))"

text \<open>The port is one that \<open>connect\<close> accepts and the dial returns.\<close>

definition dialled :: "string \<Rightarrow> portlike \<Rightarrow> RedisConnectionOptions \<Rightarrow> world \<Rightarrow> bool" where
  "dialled host p opts w =
     (case parsePortLike (case p of PortUndefined \<Rightarrow> PortNumber (Integral 6379) | _ \<Rightarrow> p) of
        Inl e \<Rightarrow> False
      | Inr q \<Rightarrow>
          isSafeInteger q \<and>
          (case q of
             Integral n \<Rightarrow>
               (case answers w (clock w) (dial_event opts host n) of
                  Return x \<Rightarrow> True
                | Raise e \<Rightarrow> False)
           | _ \<Rightarrow> False))"

text \<open>A world where the socket is closed already: closing it raises \<open>BadResource\<close>.\<close>

definition world_created :: world where
  "world_created =
     \<lparr>answers = (\<lambda>t e. case e of CloseSocket s \<Rightarrow> Raise BadResource | _ \<Rightarrow> Return (Status ''OK'')),
      clock = 0, trace = []\<rparr>"


definition retrying_back_at_10 :: loop where
  "retrying_back_at_10 =
     \<lparr>conn = (fst connected_back_at_10)\<lparr>isConnected := False\<rparr>,
      wld = (snd connected_back_at_10)\<lparr>clock := 2,
              trace := trace (snd connected_back_at_10) @ [Send 0 ''PING'' [], SetConnected False]\<rparr>,
      timer = True, tasks = [], promise = None\<rparr>"







section \<open>Properties of close\<close>

lemma close_connection: "fst (snd (close c w)) = c\<lparr>isClosed := True, isConnected := False\<rparr>"
  by (simp add: close_def Let_def call_def emit_def split: option.split response.split prod.split)

lemma close_result:
  "fst (close c w) =
     (case closer c of None \<Rightarrow> Inl TypeError
      | Some sock \<Rightarrow> closer_result (answers w (clock w) (CloseSocket sock)))"
  by (simp add: close_def closer_result_def Let_def call_def emit_def
      split: option.split response.split prod.split)

lemma close_trace:
  "trace (snd (snd (close c w))) =
     trace w @ [SetClosed True, SetConnected False] @
       (case closer c of None \<Rightarrow> [] | Some sock \<Rightarrow> [CloseSocket sock])"
  by (simp add: close_def Let_def call_def emit_def split: option.split response.split prod.split)

lemma close_answers: "answers (snd (snd (close c w))) = answers w"
  by (simp add: close_def Let_def call_def emit_def split: option.split response.split prod.split)

lemma close_clock:
  "clock (snd (snd (close c w))) = clock w + (case closer c of None \<Rightarrow> 0 | Some sock \<Rightarrow> 1)"
  by (simp add: close_def Let_def call_def emit_def split: option.split response.split prod.split)

lemma close_times_connection:
  "fst (close_times (Suc n) c w) = c\<lparr>isClosed := True, isConnected := False\<rparr>"
proof (induction n arbitrary: c w)
  case 0
  show ?case using close_connection [of c w] by (cases "close c w") simp
next
  case (Suc n)
  obtain r c' w' where cl: "close c w = (r, c', w')" by (cases "close c w") auto
  then have c': "c' = c\<lparr>isClosed := True, isConnected := False\<rparr>"
    using close_connection [of c w] by simp
  have "fst (close_times (Suc (Suc n)) c w) = fst (close_times (Suc n) c' w')"
    using cl by simp
  also have "\<dots> = c'\<lparr>isClosed := True, isConnected := False\<rparr>" by (rule Suc.IH)
  finally show ?case by (simp add: c')
qed

lemma connect_no_options_ok:
  "answers w (clock w) (Connect host 6379) = Return x \<Longrightarrow>
   connect host PortUndefined no_options w =
     (Inr (),
      (new_RedisConnection host (PortNumber (Integral 6379)) no_options)
        \<lparr>closer := Some (clock w), executor := Some False, isClosed := False, isConnected := True\<rparr>,
      w\<lparr>clock := Suc (clock w),
        trace := trace w @ [Connect host 6379, SetClosed False, SetConnected True]\<rparr>)"
  by (simp add: connect_def connect_method_def connectThunkified_def parsePortLike_def
      MAX_SAFE_INTEGER_def dial_def call_def adopt_def emit_def handshake_def Let_def
      new_RedisConnection_def no_options_def)

text \<open>
  C9. Whenever \<open>close()\<close> finishes, with or without an error of the closer, the
  connection has \<open>isClosed = true\<close> and \<open>isConnected = false\<close>, and both flags were
  written before the closer was called.
\<close>

theorem close_sets_flags_first:
  "(case close c w of (r, c', w') \<Rightarrow>
      isClosed c' \<and> \<not> isConnected c' \<and>
      trace w' = trace w @ [SetClosed True, SetConnected False] @
        (case closer c of None \<Rightarrow> [] | Some sock \<Rightarrow> [CloseSocket sock]))"
  using close_connection [of c w] close_trace [of c w] by (cases "close c w") simp

text \<open>
  C4, as the code has it. Calling \<open>close()\<close> \<open>n\<close> times, \<open>n\<close> at least 1, leaves the
  connection as one call does. A call returns normally when the closer returns or
  raises \<open>BadResource\<close>; any other error of the closer is raised to the caller.
\<close>

theorem close_idempotent_suppresses_BadResource:
  "1 \<le> n \<Longrightarrow>
   fst (close_times n c w) = fst (snd (close c w)) \<and>
   fst (close c w) =
     (case closer c of None \<Rightarrow> Inl TypeError
      | Some sock \<Rightarrow> closer_result (answers w (clock w) (CloseSocket sock)))"
  using close_times_connection [of "n - 1" c w] close_connection [of c w] close_result [of c w]
  by simp

theorem close_idempotent_suppresses_BadResource_witness:
  "(1::nat) \<le> 3 \<and>
   fst (close_times 3 (fst (snd (connect ''redis'' PortUndefined no_options world_already_closed)))
          (snd (snd (connect ''redis'' PortUndefined no_options world_already_closed)))) =
   fst (snd (close (fst (snd (connect ''redis'' PortUndefined no_options world_already_closed)))
          (snd (snd (connect ''redis'' PortUndefined no_options world_already_closed))))) \<and>
   fst (close (fst (snd (connect ''redis'' PortUndefined no_options world_already_closed)))
          (snd (snd (connect ''redis'' PortUndefined no_options world_already_closed)))) = Inr ()"
proof -
  have h: "(1::nat) \<le> 3" by simp
  have ok: "answers world_already_closed (clock world_already_closed) (Connect ''redis'' 6379)
              = Return (Status ''OK'')"
    by (simp add: world_already_closed_def)
  show ?thesis
    using close_idempotent_suppresses_BadResource [OF h,
        of "fst (snd (connect ''redis'' PortUndefined no_options world_already_closed))"
           "snd (snd (connect ''redis'' PortUndefined no_options world_already_closed))"]
    unfolding connect_no_options_ok [OF ok]
    by (simp add: closer_result_def world_already_closed_def new_RedisConnection_def)
qed

text \<open>
  C4 as stated fails: on a connection that \<open>connect\<close> returned, \<open>close()\<close> raises the
  I/O error that the closer raised.
\<close>

theorem close_raises_counterexample:
  "fst (close (fst (snd (connect ''redis'' PortUndefined no_options world_close_fails)))
         (snd (snd (connect ''redis'' PortUndefined no_options world_close_fails))))
   = Inl (Error ''EIO'')"
proof -
  have ok: "answers world_close_fails (clock world_close_fails) (Connect ''redis'' 6379)
              = Return (Status ''OK'')"
    by (simp add: world_close_fails_def)
  show ?thesis
    unfolding connect_no_options_ok [OF ok]
    by (simp add: close_result closer_result_def world_close_fails_def new_RedisConnection_def)
qed

section \<open>Properties of connect\<close>

lemma adopt_connection:
  "fst (adopt c w sock) =
     c\<lparr>name := (case opt_name (options c) of None \<Rightarrow> name c
                 | Some n \<Rightarrow> if n \<noteq> [] then Some n else name c),
       maxRetryCount := configured c,
       closer := Some sock, executor := Some (0 < configured c),
       isClosed := False, isConnected := True\<rparr>"
  by (simp add: adopt_def configured_def Let_def split: option.split)

lemma connectThunkified_connection:
  assumes "connectThunkified c w = (r, c', w')"
  shows "(c' = c \<and> r \<noteq> Inr ()) \<or>
         (\<exists>sock w1. c' = fst (adopt c w1 sock) \<and> r = Inr ()) \<or>
         (\<exists>sock w1. c' = (fst (adopt c w1 sock))\<lparr>isClosed := True, isConnected := False\<rparr> \<and> r \<noteq> Inr ())"
proof (cases "parsePortLike (port c)")
  case (Inl e)
  with assms show ?thesis by (auto simp: connectThunkified_def)
next
  case (Inr p)
  show ?thesis
  proof (cases "isSafeInteger p")
    case False
    with Inr assms show ?thesis by (auto simp: connectThunkified_def)
  next
    case True
    then obtain n where p: "p = Integral n" by (cases p) auto
    obtain rd w1 where d: "dial w (opt_tls (options c) = Some True) (hostname c) n = (rd, w1)"
      by (cases "dial w (opt_tls (options c) = Some True) (hostname c) n") auto
    show ?thesis
    proof (cases rd)
      case (Inl e)
      with Inr True p d assms show ?thesis by (auto simp: connectThunkified_def)
    next
      case (Inr sock)
      obtain c2 w2 where a: "adopt c w1 sock = (c2, w2)" by (cases "adopt c w1 sock") auto
      obtain rh w3 where h: "handshake c2 w2 = (rh, w3)" by (cases "handshake c2 w2") auto
      obtain rc c4 w4 where cl: "close c2 w3 = (rc, c4, w4)" by (cases "close c2 w3") auto
      have c4: "c4 = c2\<lparr>isClosed := True, isConnected := False\<rparr>"
        using close_connection [of c2 w3] cl by simp
      have c2: "c2 = fst (adopt c w1 sock)" using a by simp
      show ?thesis
      proof (cases rh)
        case (Inl e)
        with \<open>parsePortLike (port c) = Inr p\<close> True p d Inr a h cl assms
        have "c' = c4 \<and> r \<noteq> Inr ()"
          by (cases rc) (auto simp: connectThunkified_def)
        with c4 c2 show ?thesis by blast
      next
        case (Inr u)
        with \<open>parsePortLike (port c) = Inr p\<close> True p d \<open>rd = Inr sock\<close> a h assms
        have "c' = c2 \<and> r = Inr ()"
          by (auto simp: connectThunkified_def)
        with c2 show ?thesis by blast
      qed
    qed
  qed
qed

lemma connect_no_options:
  "parsePortLike q = Inr (Integral n) \<Longrightarrow> \<bar>n\<bar> \<le> MAX_SAFE_INTEGER \<Longrightarrow> q \<noteq> PortUndefined \<Longrightarrow>
   answers w (clock w) (Connect host n) = Return x \<Longrightarrow>
   connect host q no_options w =
     (Inr (),
      (new_RedisConnection host q no_options)
        \<lparr>closer := Some (clock w), executor := Some False, isClosed := False, isConnected := True\<rparr>,
      w\<lparr>clock := Suc (clock w),
        trace := trace w @ [Connect host n, SetClosed False, SetConnected True]\<rparr>)"
  by (cases q)
     (simp_all add: connect_def connect_method_def connectThunkified_def
      dial_def call_def adopt_def emit_def handshake_def Let_def
      new_RedisConnection_def no_options_def)

lemma parseInt_80abc: "parseInt ''80abc'' = Integral 80"
  by (simp add: parseInt_def isWhiteSpace_def isDigitOf_def digitValue_def digitsValue_def
      toNumber_def MAX_SAFE_INTEGER_def Let_def)

text \<open>
  C5, at the port \<open>"80abc"\<close>: \<open>parseInt\<close> reads the leading digits and drops the
  rest, the result is a safe integer, and \<open>connect\<close> dials port 80 and succeeds.
\<close>

theorem connect_port_with_trailing_text:
  "connect ''redis'' (PortString ''80abc'') no_options world_ok =
     (Inr (),
      (new_RedisConnection ''redis'' (PortString ''80abc'') no_options)
        \<lparr>closer := Some 0, executor := Some False, isClosed := False, isConnected := True\<rparr>,
      world_ok\<lparr>clock := 1, trace := [Connect ''redis'' 80, SetClosed False, SetConnected True]\<rparr>)"
proof -
  have p: "parsePortLike (PortString ''80abc'') = Inr (Integral 80)"
    by (simp add: parsePortLike_def parseInt_80abc)
  have a: "answers world_ok (clock world_ok) (Connect ''redis'' 80) = Return (Status ''OK'')"
    by (simp add: world_ok_def)
  show ?thesis
    unfolding connect_no_options [OF p _ _ a]
    using connect_no_options [OF p _ _ a] by (simp add: MAX_SAFE_INTEGER_def world_ok_def)
qed

lemma connected_ok_eq:
  "connected_ok =
     ((new_RedisConnection ''redis'' (PortNumber (Integral 6379)) no_options)
        \<lparr>closer := Some 0, executor := Some False, isClosed := False, isConnected := True\<rparr>,
      world_ok\<lparr>clock := 1, trace := [Connect ''redis'' 6379, SetClosed False, SetConnected True]\<rparr>)"
proof -
  have a: "answers world_ok (clock world_ok) (Connect ''redis'' 6379) = Return (Status ''OK'')"
    by (simp add: world_ok_def)
  show ?thesis
    unfolding connected_ok_def connect_no_options_ok [OF a] by (simp add: world_ok_def)
qed

lemma connected_close_fails_eq:
  "connected_close_fails =
     ((new_RedisConnection ''redis'' (PortNumber (Integral 6379)) no_options)
        \<lparr>closer := Some 0, executor := Some False, isClosed := False, isConnected := True\<rparr>,
      world_close_fails\<lparr>clock := 1, trace := [Connect ''redis'' 6379, SetClosed False, SetConnected True]\<rparr>)"
proof -
  have a: "answers world_close_fails (clock world_close_fails) (Connect ''redis'' 6379) = Return (Status ''OK'')"
    by (simp add: world_close_fails_def)
  show ?thesis
    unfolding connected_close_fails_def connect_no_options_ok [OF a] by (simp add: world_close_fails_def)
qed

section \<open>Properties of pubsub_numsubs\<close>

lemma numsubs_loop_from:
  "length arr = 2 * k \<Longrightarrow> m \<le> k \<Longrightarrow>
   numsubs_loop arr (2 * m) ret =
     ret @ map (\<lambda>i. (Some (arr ! (2 * i)), Some (arr ! (2 * i + 1)))) [m..<k]"
proof (induction "k - m" arbitrary: m ret)
  case 0
  then have "m = k" by simp
  with 0 show ?case by (subst numsubs_loop.simps) simp
next
  case (Suc d)
  then have lt: "m < k" and d: "d = k - Suc m" and le: "Suc m \<le> k" by auto
  have step: "numsubs_loop arr (2 * m) ret =
      numsubs_loop arr (2 * Suc m) (ret @ [(Some (arr ! (2 * m)), Some (arr ! (2 * m + 1)))])"
    using lt Suc.prems(1) by (subst numsubs_loop.simps) (simp add: at_def)
  show ?case
    unfolding step Suc.hyps(1) [OF d Suc.prems(1) le]
    using lt by (simp add: upt_conv_Cons)
qed

text \<open>
  C8. When the reply is an array of even length \<open>2k\<close>, \<open>pubsub_numsubs\<close> returns
  exactly \<open>k\<close> pairs, in order, the \<open>i\<close>-th pair being the elements at \<open>2i\<close> and
  \<open>2i + 1\<close>.
\<close>

theorem pubsub_numsubs_pairs:
  "execArrayReply c w ''PUBSUB'' (ArgString ''NUMSUBS'' # map ArgString channels) = (Inr arr, c1, w1) \<Longrightarrow>
   length arr = 2 * k \<Longrightarrow>
   pubsub_numsubs execArrayReply c w channels =
     (Inr (map (\<lambda>i. (Some (arr ! (2 * i)), Some (arr ! (2 * i + 1)))) [0..<k]), c1, w1)"
  using numsubs_loop_from [of arr k 0 "[]"] by (simp add: pubsub_numsubs_def)

theorem pubsub_numsubs_pairs_witness:
  "length [Bulk (Some ''news''), Integer 3, Bulk (Some ''chat''), Integer 0] = 2 * 2 \<and>
   fst (pubsub_numsubs
          (array_exec [Bulk (Some ''news''), Integer 3, Bulk (Some ''chat''), Integer 0])
          (fst connected_ok) (snd connected_ok) [''news'', ''chat'']) =
     Inr [(Some (Bulk (Some ''news'')), Some (Integer 3)),
          (Some (Bulk (Some ''chat'')), Some (Integer 0))]"
proof -
  let ?arr = "[Bulk (Some ''news''), Integer 3, Bulk (Some ''chat''), Integer 0]"
  let ?w1 = "(snd connected_ok)\<lparr>clock := 2,
      trace := trace (snd connected_ok) @
        [Exec ''PUBSUB'' [ArgString ''NUMSUBS'', ArgString ''news'', ArgString ''chat'']]\<rparr>"
  have h: "array_exec ?arr (fst connected_ok) (snd connected_ok) ''PUBSUB''
             (ArgString ''NUMSUBS'' # map ArgString [''news'', ''chat''])
           = (Inr ?arr, fst connected_ok, ?w1)"
    by (simp add: connected_ok_eq array_exec_def call_def world_ok_def)
  have len: "length ?arr = 2 * 2" by simp
  have upt: "[0..<2] = [0, Suc 0]" by (simp add: upt_conv_Cons)
  show ?thesis
    using pubsub_numsubs_pairs [of "array_exec ?arr" "fst connected_ok" "snd connected_ok"
        "[''news'', ''chat'']" ?arr "fst connected_ok" ?w1 2, OF h len]
    by (simp add: upt)
qed

section \<open>The order of connect\<close>

lemma call_all_append:
  "call_all w (xs @ ys) =
     (case call_all w xs of (Inl e, w') \<Rightarrow> (Inl e, w') | (Inr u, w') \<Rightarrow> call_all w' ys)"
  by (induction xs arbitrary: w) (auto split: prod.split response.split)

lemma auth_phase:
  "closer c = Some sock \<Longrightarrow>
   (case opt_password (options c) of
      None \<Rightarrow> (Inr (), w)
    | Some password \<Rightarrow>
        (case authenticate c w password of
           (Inl e, w') \<Rightarrow> (Inl e, w')
         | (Inr r, w') \<Rightarrow> (Inr (), w'))) = call_all w (auth_commands (options c) sock)"
  by (simp add: auth_commands_def authenticate_def sendCommand_def
      split: option.split response.split prod.split)

lemma select_phase:
  "closer c = Some sock \<Longrightarrow>
   (case opt_db (options c) of
      None \<Rightarrow> (Inr (), w1)
    | Some d \<Rightarrow>
        if d = 0 then (Inr (), w1)
        else (case selectDb c w1 (Some d) of
                (Inl e, w2) \<Rightarrow> (Inl e, w2)
              | (Inr r, w2) \<Rightarrow> (Inr (), w2))) = call_all w1 (select_commands (options c) sock)"
  by (simp add: select_commands_def selectDb_def sendCommand_def Let_def
      split: option.split response.split prod.split)

lemma handshake_call_all:
  assumes "closer c = Some sock"
  shows "handshake c w =
           call_all w (auth_commands (options c) sock @ select_commands (options c) sock)"
  unfolding handshake_def auth_phase [OF assms] call_all_append
  by (cases "call_all w (auth_commands (options c) sock)")
     (simp add: select_phase [OF assms] split: sum.split)

lemma all_return_answers:
  "answers w' = answers w \<Longrightarrow> all_return w' t evs = all_return w t evs"
  by (induction evs arbitrary: t) (auto split: response.split)

lemma call_all_sent:
  "call_all w evs = (r, w') \<Longrightarrow>
   \<exists>sent rest. evs = sent @ rest \<and>
     trace w' = trace w @ sent \<and> clock w' = clock w + length sent \<and> answers w' = answers w \<and>
     ((r = Inr () \<and> rest = [] \<and> all_return w (clock w) sent) \<or>
      (sent \<noteq> [] \<and> all_return w (clock w) (butlast sent) \<and>
       (\<exists>e. r = Inl e \<and> answers w (clock w + length sent - 1) (last sent) = Raise e)))"
proof (induction evs arbitrary: w)
  case Nil
  then show ?case by auto
next
  case (Cons ev evs)
  let ?w1 = "w\<lparr>clock := Suc (clock w), trace := trace w @ [ev]\<rparr>"
  show ?case
  proof (cases "answers w (clock w) ev")
    case (Raise e)
    with Cons.prems have "r = Inl e" and "w' = ?w1" by (auto simp: call_def)
    with Raise have "ev # evs = [ev] @ evs \<and> trace w' = trace w @ [ev] \<and>
        clock w' = clock w + length [ev] \<and> answers w' = answers w \<and>
        [ev] \<noteq> [] \<and> all_return w (clock w) (butlast [ev]) \<and>
        r = Inl e \<and> answers w (clock w + length [ev] - 1) (last [ev]) = Raise e"
      by simp
    then show ?thesis by blast
  next
    case (Return x)
    with Cons.prems have "call_all ?w1 evs = (r, w')" by (simp add: call_def)
    from Cons.IH [OF this] obtain sent rest where s: "evs = sent @ rest"
      "trace w' = trace ?w1 @ sent" "clock w' = clock ?w1 + length sent" "answers w' = answers ?w1"
      "(r = Inr () \<and> rest = [] \<and> all_return ?w1 (clock ?w1) sent) \<or>
       (sent \<noteq> [] \<and> all_return ?w1 (clock ?w1) (butlast sent) \<and>
        (\<exists>e. r = Inl e \<and> answers ?w1 (clock ?w1 + length sent - 1) (last sent) = Raise e))"
      by blast
    have ar: "all_return ?w1 t xs = all_return w t xs" for xs t
      using all_return_answers [of ?w1 w t xs] by simp
    have "ev # evs = (ev # sent) @ rest \<and> trace w' = trace w @ (ev # sent) \<and>
        clock w' = clock w + length (ev # sent) \<and> answers w' = answers w \<and>
        ((r = Inr () \<and> rest = [] \<and> all_return w (clock w) (ev # sent)) \<or>
         (ev # sent \<noteq> [] \<and> all_return w (clock w) (butlast (ev # sent)) \<and>
          (\<exists>e. r = Inl e \<and> answers w (clock w + length (ev # sent) - 1) (last (ev # sent)) = Raise e)))"
      using s Return by (auto simp: ar)
    then show ?thesis by blast
  qed
qed


lemma adopt_world:
  "snd (adopt c w sock) = w\<lparr>trace := trace w @ [SetClosed False, SetConnected True]\<rparr>"
  by (simp add: adopt_def emit_def Let_def split: option.split)

lemma connectThunkified_dialled:
  assumes port: "parsePortLike (port c) = Inr (Integral n)" and safe: "\<bar>n\<bar> \<le> MAX_SAFE_INTEGER"
    and ret: "answers w (clock w) (dial_event (options c) (hostname c) n) = Return x"
    and c2: "c2 = fst (adopt c w1 (clock w))"
    and w2: "w2 = w\<lparr>clock := Suc (clock w),
                trace := trace w @ [dial_event (options c) (hostname c) n, SetClosed False, SetConnected True]\<rparr>"
    and h: "handshake c2 w2 = (rh, w3)"
  shows "connectThunkified c w =
           (case rh of
              Inr u \<Rightarrow> (Inr (), c2, w3)
            | Inl error \<Rightarrow>
                (case fst (close c2 w3) of Inl e \<Rightarrow> Inl e | Inr u \<Rightarrow> Inl error,
                 c2\<lparr>isClosed := True, isConnected := False\<rparr>, snd (snd (close c2 w3))))"
proof -
  let ?w1 = "w\<lparr>clock := Suc (clock w), trace := trace w @ [dial_event (options c) (hostname c) n]\<rparr>"
  have d: "dial w (opt_tls (options c) = Some True) (hostname c) n = (Inr (clock w), ?w1)"
    using ret by (simp add: dial_def call_def dial_event_def)
  have a: "adopt c ?w1 (clock w) = (c2, w2)"
    using adopt_connection [of c ?w1 "clock w"] adopt_world [of c ?w1 "clock w"]
      adopt_connection [of c w1 "clock w"] c2 w2
    by (cases "adopt c ?w1 (clock w)") simp
  obtain rc c4 w4 where cl: "close c2 w3 = (rc, c4, w4)" by (cases "close c2 w3") auto
  have c4: "c4 = c2\<lparr>isClosed := True, isConnected := False\<rparr>"
    using close_connection [of c2 w3] cl by simp
  show ?thesis
    using port safe d a h cl c4
    by (cases rh; cases rc) (simp_all add: connectThunkified_def)
qed

text \<open>
  C1, as the code has it. With a valid port, \<open>connect\<close> dials \<open>(hostname, port)\<close>, by
  TLS when \<open>tls\<close> is set; a failed dial is raised and nothing else is done. After the
  dial the client is marked not closed and connected, and only then come AUTH (when a
  password is set) and SELECT (when a database is set and not zero), in that order, up
  to the first that fails. When all return, \<open>connect\<close> returns with the client
  connected. When one fails, \<open>close()\<close> is called: the client is marked closed and not
  connected, the socket is closed, and the failure is raised, unless the closer raises
  an error other than \<open>BadResource\<close>, which is raised in its place.
\<close>

theorem connect_order:
  assumes port: "parsePortLike (case p of PortUndefined \<Rightarrow> PortNumber (Integral 6379) | _ \<Rightarrow> p)
                   = Inr (Integral n)"
    and safe: "\<bar>n\<bar> \<le> MAX_SAFE_INTEGER"
  shows "(case connect host p opts w of (r, c, w') \<Rightarrow>
           (case answers w (clock w) (dial_event opts host n) of
              Raise e \<Rightarrow> r = Inl e \<and> trace w' = trace w @ [dial_event opts host n]
            | Return x \<Rightarrow>
                (\<exists>sent rest.
                   auth_commands opts (clock w) @ select_commands opts (clock w) = sent @ rest \<and>
                   ((r = Inr () \<and> rest = [] \<and> all_return w (Suc (clock w)) sent \<and>
                     isConnected c \<and> \<not> isClosed c \<and>
                     trace w' = trace w @ [dial_event opts host n, SetClosed False, SetConnected True] @ sent) \<or>
                    (sent \<noteq> [] \<and> all_return w (Suc (clock w)) (butlast sent) \<and>
                     isClosed c \<and> \<not> isConnected c \<and>
                     trace w' = trace w @ [dial_event opts host n, SetClosed False, SetConnected True] @ sent @
                                [SetClosed True, SetConnected False, CloseSocket (clock w)] \<and>
                     (\<exists>e. answers w (clock w + length sent) (last sent) = Raise e \<and>
                          r = (case closer_result (answers w (clock w + length sent + 1) (CloseSocket (clock w))) of
                                 Inl e' \<Rightarrow> Inl e'
                               | Inr u \<Rightarrow> Inl e)))))))"
proof -
  define q where "q = (case p of PortUndefined \<Rightarrow> PortNumber (Integral 6379) | _ \<Rightarrow> p)"
  define c0 where "c0 = new_RedisConnection host q opts"
  define d where "d = dial_event opts host n"
  have con: "connect host p opts w = connectThunkified c0 w"
    by (simp add: connect_def connect_method_def q_def c0_def)
  have c0: "port c0 = q" "options c0 = opts" "hostname c0 = host"
    by (simp_all add: c0_def new_RedisConnection_def)
  have pq: "parsePortLike (port c0) = Inr (Integral n)" using port by (simp add: c0 q_def)
  show ?thesis
  proof (cases "answers w (clock w) d")
    case (Raise e)
    then have "connectThunkified c0 w =
        (Inl e, c0, w\<lparr>clock := Suc (clock w), trace := trace w @ [d]\<rparr>)"
      using pq safe by (simp add: connectThunkified_def dial_def call_def dial_event_def d_def c0)
    with Raise show ?thesis by (simp add: con d_def [symmetric])
  next
    case (Return x)
    define c2 where "c2 = fst (adopt c0 w (clock w))"
    define w2 where "w2 = w\<lparr>clock := Suc (clock w),
        trace := trace w @ [d, SetClosed False, SetConnected True]\<rparr>"
    obtain rh w3 where h: "handshake c2 w2 = (rh, w3)" by (cases "handshake c2 w2") auto
    have c2: "closer c2 = Some (clock w)" "options c2 = opts" "isConnected c2" "\<not> isClosed c2"
      by (simp_all add: c2_def adopt_connection c0)
    have ca: "call_all w2 (auth_commands opts (clock w) @ select_commands opts (clock w)) = (rh, w3)"
      using handshake_call_all [OF c2(1), of w2] h by (simp add: c2)
    from call_all_sent [OF ca] obtain sent rest where s:
      "auth_commands opts (clock w) @ select_commands opts (clock w) = sent @ rest"
      "trace w3 = trace w2 @ sent" "clock w3 = clock w2 + length sent" "answers w3 = answers w2"
      "(rh = Inr () \<and> rest = [] \<and> all_return w2 (clock w2) sent) \<or>
       (sent \<noteq> [] \<and> all_return w2 (clock w2) (butlast sent) \<and>
        (\<exists>e. rh = Inl e \<and> answers w2 (clock w2 + length sent - 1) (last sent) = Raise e))"
      by blast
    have ar: "all_return w2 t xs = all_return w t xs" for xs t
      using all_return_answers [of w2 w t xs] by (simp add: w2_def)
    have cw2: "clock w2 = Suc (clock w)" by (simp add: w2_def)
    have eq: "connectThunkified c0 w =
           (case rh of
              Inr u \<Rightarrow> (Inr (), c2, w3)
            | Inl error \<Rightarrow>
                (case fst (close c2 w3) of Inl e \<Rightarrow> Inl e | Inr u \<Rightarrow> Inl error,
                 c2\<lparr>isClosed := True, isConnected := False\<rparr>, snd (snd (close c2 w3))))"
      using connectThunkified_dialled [OF pq safe, of w x c2 w w2 rh w3] Return h
      by (simp add: c0 d_def c2_def w2_def)
    show ?thesis
    proof (cases rh)
      case (Inr u)
      with s(5) have rest: "rest = []" and allr: "all_return w (Suc (clock w)) sent"
        by (auto simp: ar cw2)
      have "connect host p opts w = (Inr (), c2, w3)" using eq Inr by (simp add: con)
      moreover have "trace w3 = trace w @ [d, SetClosed False, SetConnected True] @ sent"
        using s(2) by (simp add: w2_def)
      ultimately show ?thesis
        using Return s(1) rest allr c2 by (auto simp: d_def [symmetric])
    next
      case (Inl error)
      with s(5) have ne: "sent \<noteq> []" and allr: "all_return w (Suc (clock w)) (butlast sent)"
        and raised: "answers w2 (clock w2 + length sent - 1) (last sent) = Raise error" by (auto simp: ar cw2)
      have a1: "answers w (clock w + length sent) (last sent) = Raise error"
        using raised ne by (simp add: w2_def)
      have res: "fst (close c2 w3) =
          closer_result (answers w (clock w + length sent + 1) (CloseSocket (clock w)))"
        using close_result [of c2 w3] s(3,4) by (simp add: c2 w2_def)
      have tr: "trace (snd (snd (close c2 w3))) =
          trace w @ [d, SetClosed False, SetConnected True] @ sent @
            [SetClosed True, SetConnected False, CloseSocket (clock w)]"
        using close_trace [of c2 w3] s(2) by (simp add: c2 w2_def)
      have "connect host p opts w =
          (case closer_result (answers w (clock w + length sent + 1) (CloseSocket (clock w))) of
             Inl e \<Rightarrow> Inl e | Inr u \<Rightarrow> Inl error,
           c2\<lparr>isClosed := True, isConnected := False\<rparr>, snd (snd (close c2 w3)))"
        using eq Inl res by (simp add: con)
      then show ?thesis
        using Return s(1) ne allr a1 tr by (auto simp: d_def [symmetric])
    qed
  qed
qed


lemma parseInt_6379: "parseInt ''6379'' = Integral 6379"
  by (simp add: parseInt_def isWhiteSpace_def isDigitOf_def digitValue_def digitsValue_def
      toNumber_def MAX_SAFE_INTEGER_def Let_def)

theorem connect_order_witness:
  "parsePortLike (case PortString ''6379'' of PortUndefined \<Rightarrow> PortNumber (Integral 6379) | _ \<Rightarrow> PortString ''6379'')
     = Inr (Integral 6379) \<and>
   \<bar>6379\<bar> \<le> MAX_SAFE_INTEGER \<and>
   fst (connect ''redis'' (PortString ''6379'') password_options world_auth_fails) = Inl (Error ''WRONGPASS'') \<and>
   trace (snd (snd (connect ''redis'' (PortString ''6379'') password_options world_auth_fails))) =
     [Connect ''redis'' 6379, SetClosed False, SetConnected True,
      Send 0 ''AUTH'' [ArgString ''secret''],
      SetClosed True, SetConnected False, CloseSocket 0]"
proof -
  have h1: "parsePortLike (case PortString ''6379'' of PortUndefined \<Rightarrow> PortNumber (Integral 6379) | _ \<Rightarrow> PortString ''6379'')
     = Inr (Integral 6379)"
    by (simp add: parsePortLike_def parseInt_6379)
  have h2: "\<bar>6379\<bar> \<le> MAX_SAFE_INTEGER" by (simp add: MAX_SAFE_INTEGER_def)
  have cmds: "auth_commands password_options 0 @ select_commands password_options 0
                = [Send 0 ''AUTH'' [ArgString ''secret'']]"
    by (simp add: auth_commands_def select_commands_def password_options_def no_options_def)
  have ev: "dial_event password_options ''redis'' 6379 = Connect ''redis'' 6379"
    by (simp add: dial_event_def password_options_def no_options_def)
  obtain r c w' where k: "connect ''redis'' (PortString ''6379'') password_options world_auth_fails = (r, c, w')"
    by (cases "connect ''redis'' (PortString ''6379'') password_options world_auth_fails") auto
  have w: "clock world_auth_fails = 0" "trace world_auth_fails = []"
    "\<And>t. answers world_auth_fails t (Connect ''redis'' 6379) = Return (Status ''OK'')"
    "\<And>t s. answers world_auth_fails t (CloseSocket s) = Return (Status ''OK'')"
    "\<And>t s. answers world_auth_fails t (Send 0 ''AUTH'' [ArgString ''secret'']) = Raise (Error ''WRONGPASS'')"
    by (simp_all add: world_auth_fails_def)
  from connect_order [where host="''redis''" and opts=password_options and w=world_auth_fails, OF h1 h2]
  obtain sent rest where s: "[Send 0 ''AUTH'' [ArgString ''secret'']] = sent @ rest"
    "(r = Inr () \<and> rest = [] \<and> all_return world_auth_fails (Suc 0) sent \<and>
       isConnected c \<and> \<not> isClosed c \<and>
       trace w' = [Connect ''redis'' 6379, SetClosed False, SetConnected True] @ sent) \<or>
     (sent \<noteq> [] \<and> all_return world_auth_fails (Suc 0) (butlast sent) \<and>
       isClosed c \<and> \<not> isConnected c \<and>
       trace w' = [Connect ''redis'' 6379, SetClosed False, SetConnected True] @ sent @
                  [SetClosed True, SetConnected False, CloseSocket 0] \<and>
       (\<exists>e. answers world_auth_fails (length sent) (last sent) = Raise e \<and>
            r = (case closer_result (answers world_auth_fails (length sent + 1) (CloseSocket 0)) of
                   Inl e' \<Rightarrow> Inl e' | Inr u \<Rightarrow> Inl e)))"
    unfolding k by (auto simp: cmds ev w)
  from s(1) have "sent = [] \<and> rest = [Send 0 ''AUTH'' [ArgString ''secret'']] \<or>
                  sent = [Send 0 ''AUTH'' [ArgString ''secret'']] \<and> rest = []"
    by (cases sent) auto
  with s(2) have "r = Inl (Error ''WRONGPASS'') \<and>
      trace w' = [Connect ''redis'' 6379, SetClosed False, SetConnected True,
        Send 0 ''AUTH'' [ArgString ''secret''], SetClosed True, SetConnected False, CloseSocket 0]"
    by (auto simp: w closer_result_def)
  with h1 h2 k show ?thesis by simp
qed

text \<open>
  C1 as stated fails: with a password set, the client is marked connected before AUTH
  is sent, not after the handshake.
\<close>

theorem connect_marks_before_auth_counterexample:
  "connect ''redis'' PortUndefined password_options world_ok =
     (Inr (),
      (new_RedisConnection ''redis'' (PortNumber (Integral 6379)) password_options)
        \<lparr>closer := Some 0, executor := Some False, isClosed := False, isConnected := True\<rparr>,
      world_ok\<lparr>clock := 2,
        trace := [Connect ''redis'' 6379, SetClosed False, SetConnected True,
                  Send 0 ''AUTH'' [ArgString ''secret'']]\<rparr>)"
  by (simp add: connect_def connect_method_def connectThunkified_def parsePortLike_def
      MAX_SAFE_INTEGER_def dial_def call_def adopt_def emit_def handshake_def authenticate_def
      sendCommand_def Let_def new_RedisConnection_def password_options_def no_options_def world_ok_def)

section \<open>FIFO pairing of the executor\<close>

lemma submissions_append: "submissions (xs @ ys) = submissions xs @ submissions ys"
  by (induction xs rule: submissions.induct) auto

lemma serve_all_snoc:
  "serve_all serve s (cmds @ [cmd]) =
     (case serve_all serve s cmds of
        (replies, s') \<Rightarrow> (case serve s' cmd of (reply, s'') \<Rightarrow> (replies @ [reply], s'')))"
  by (induction cmds arbitrary: s) (auto split: prod.split)

lemma serve_all_prefix:
  "fst (serve_all serve s (xs @ ys)) =
     fst (serve_all serve s xs) @ fst (serve_all serve (snd (serve_all serve s xs)) ys)"
  by (induction xs arbitrary: s) (simp_all add: split_beta)

lemma exec_inv_step:
  assumes "exec_inv serve s0 subs st"
  shows "exec_inv serve s0 (subs @ submissions [a]) (exec_step serve st a)"
proof (cases a)
  case (Submit caller cmd)
  with assms show ?thesis by (auto simp: exec_inv_def exec_step_def)
next
  case Dispatch
  with assms show ?thesis
    by (auto simp: exec_inv_def exec_step_def split: option.split list.split)
next
  case Receive
  show ?thesis
  proof (cases "in_flight st")
    case None
    with Receive assms show ?thesis by (simp add: exec_inv_def exec_step_def)
  next
    case (Some x)
    obtain reply s' where sv: "serve (server st) (snd x) = (reply, s')"
      by (cases "serve (server st) (snd x)") auto
    with Receive Some assms show ?thesis
      by (simp add: exec_inv_def exec_step_def serve_all_snoc)
  qed
qed

lemma exec_inv_run: "exec_inv serve s0 (submissions acts) (exec_run serve s0 acts)"
proof (induction acts rule: rev_induct)
  case Nil
  show ?case by (simp add: exec_run_def exec_init_def exec_inv_def)
next
  case (snoc a acts)
  from exec_inv_step [OF snoc, of a] show ?case
    by (simp add: exec_run_def submissions_append)
qed

text \<open>
  C7. On any schedule, the completions are signalled in the order of submission, the
  \<open>k\<close>-th completion pairs the \<open>k\<close>-th submission with the server's \<open>k\<close>-th reply, and the
  submissions are, in order, the completed ones, the one in flight (at most one) and
  the queued ones.
\<close>

theorem fifo_pairing:
  "completed (exec_run serve s0 acts) =
     take (length (completed (exec_run serve s0 acts)))
       (zip (submissions acts) (fst (serve_all serve s0 (map snd (submissions acts))))) \<and>
   map fst (completed (exec_run serve s0 acts)) @
     (case in_flight (exec_run serve s0 acts) of None \<Rightarrow> [] | Some x \<Rightarrow> [x]) @
     queue (exec_run serve s0 acts) = submissions acts"
proof -
  define st where "st = exec_run serve s0 acts"
  define rest where "rest = (case in_flight st of None \<Rightarrow> [] | Some x \<Rightarrow> [x]) @ queue st"
  from exec_inv_run [of serve s0 acts]
  have subs: "submissions acts = map fst (completed st) @ rest"
    and rep: "serve_all serve s0 (map (snd \<circ> fst) (completed st)) = (map snd (completed st), server st)"
    by (simp_all add: exec_inv_def st_def rest_def)
  have "fst (serve_all serve s0 (map snd (submissions acts))) =
          map snd (completed st) @ fst (serve_all serve (server st) (map snd rest))"
    using serve_all_prefix [of serve s0 "map (snd \<circ> fst) (completed st)" "map snd rest"] rep
    by (simp add: subs)
  then have "zip (submissions acts) (fst (serve_all serve s0 (map snd (submissions acts)))) =
      zip (map fst (completed st)) (map snd (completed st)) @
      zip rest (fst (serve_all serve (server st) (map snd rest)))"
    by (simp add: subs)
  moreover have "zip (map fst (completed st)) (map snd (completed st)) = completed st"
    by (simp add: zip_map_fst_snd)
  ultimately show ?thesis using subs by (simp add: st_def [symmetric] rest_def)
qed

section \<open>Port parsing\<close>

lemma isDigitOf_10: "isDigitOf 10 ch \<longleftrightarrow> 48 \<le> (of_char ch :: nat) \<and> (of_char ch :: nat) \<le> 57"
  by (auto simp: isDigitOf_def digitValue_def Let_def)

lemma decimal_digit_plain:
  assumes "isDigitOf 10 ch"
  shows "\<not> isWhiteSpace ch" "ch \<noteq> CHR ''-''" "ch \<noteq> CHR ''+''" "ch \<noteq> CHR ''x''" "ch \<noteq> CHR ''X''"
  using assms by (auto simp: isDigitOf_10 isWhiteSpace_def)

text \<open>A string of decimal digits is parsed to the number it writes.\<close>

lemma parseInt_digits:
  assumes ne: "s \<noteq> []" and digits: "\<forall>ch\<in>set s. isDigitOf 10 ch"
  shows "parseInt s = toNumber (int (digitsValue 10 s))"
proof -
  obtain a rest where s: "s = a # rest" using ne by (cases s) auto
  have a: "isDigitOf 10 a" using digits s by simp
  have dw: "dropWhile isWhiteSpace s = s" using decimal_digit_plain(1) [OF a] s by simp
  have hd: "hd s \<noteq> CHR ''-''" "hd s \<noteq> CHR ''+''"
    using decimal_digit_plain(2,3) [OF a] s by simp_all
  have nohex: "take 2 s \<noteq> ''0x''" "take 2 s \<noteq> ''0X''"
  proof -
    show "take 2 s \<noteq> ''0x''"
    proof
      assume h: "take 2 s = ''0x''"
      then obtain b rest' where "rest = b # rest'" using s by (cases rest) auto
      with h s have "b = CHR ''x''" by simp
      moreover have "isDigitOf 10 b" using digits s \<open>rest = b # rest'\<close> by simp
      ultimately show False using decimal_digit_plain(4) by blast
    qed
    show "take 2 s \<noteq> ''0X''"
    proof
      assume h: "take 2 s = ''0X''"
      then obtain b rest' where "rest = b # rest'" using s by (cases rest) auto
      with h s have "b = CHR ''X''" by simp
      moreover have "isDigitOf 10 b" using digits s \<open>rest = b # rest'\<close> by simp
      ultimately show False using decimal_digit_plain(5) by blast
    qed
  qed
  have tw: "takeWhile (isDigitOf 10) s = s" using digits by (simp add: takeWhile_eq_all_conv)
  show ?thesis
    using ne by (simp add: parseInt_def Let_def dw hd nohex tw)
qed

text \<open>A port that is neither a string, a number nor undefined is refused before any dial.\<close>

lemma connect_rejects_other_type:
  "connect host (PortOther ty) opts w =
     (Inl (Error (''port is invalid: typeof='' @ ty)),
      new_RedisConnection host (PortOther ty) opts, w)"
  by (simp add: connect_def connect_method_def connectThunkified_def parsePortLike_def
      new_RedisConnection_def)

text \<open>A string with no leading digit is refused before any dial.\<close>

lemma connect_rejects_NaN:
  "parseInt s = NaN \<Longrightarrow>
   connect host (PortString s) opts w =
     (Inl (Error ''deno-redis: opts.port is invalid''),
      new_RedisConnection host (PortString s) opts, w)"
  by (simp add: connect_def connect_method_def connectThunkified_def parsePortLike_def
      new_RedisConnection_def)

lemma parseInt_no_digit:
  "parseInt ''abc'' = NaN"
  by (simp add: parseInt_def isWhiteSpace_def isDigitOf_def digitValue_def digitsValue_def
      toNumber_def MAX_SAFE_INTEGER_def Let_def)

section \<open>The executor that connect creates\<close>

lemma connect_fields:
  "(case connect host p opts w of
      (r, c, w') \<Rightarrow>
        (if dialled host p opts w
         then closer c = Some (clock w) \<and>
              executor c = Some (0 < (case opt_maxRetryCount opts of None \<Rightarrow> 0 | Some m \<Rightarrow> m)) \<and>
              maxRetryCount c = (case opt_maxRetryCount opts of None \<Rightarrow> 0 | Some m \<Rightarrow> m)
         else closer c = None \<and> executor c = None \<and> maxRetryCount c = 0 \<and> r \<noteq> Inr ()))"
proof -
  define q where "q = (case p of PortUndefined \<Rightarrow> PortNumber (Integral 6379) | _ \<Rightarrow> p)"
  define c0 where "c0 = new_RedisConnection host q opts"
  define m where "m = (case opt_maxRetryCount opts of None \<Rightarrow> 0 | Some m \<Rightarrow> m)"
  have con: "connect host p opts w = connectThunkified c0 w"
    by (simp add: connect_def connect_method_def q_def c0_def)
  have c0: "port c0 = q" "options c0 = opts" "hostname c0 = host" "closer c0 = None"
    "executor c0 = None" "maxRetryCount c0 = 0"
    by (simp_all add: c0_def new_RedisConnection_def)
  have conf: "configured c0 = m"
    by (simp add: configured_def c0 m_def split: option.split)
  show ?thesis
  proof (cases "parsePortLike q")
    case (Inl e)
    then have "connectThunkified c0 w = (Inl e, c0, w)" by (simp add: connectThunkified_def c0)
    moreover have "\<not> dialled host p opts w" using Inl by (simp add: dialled_def q_def [symmetric])
    ultimately show ?thesis by (simp add: con c0)
  next
    case (Inr pn)
    show ?thesis
    proof (cases "isSafeInteger pn")
      case False
      then have "connectThunkified c0 w = (Inl (Error ''deno-redis: opts.port is invalid''), c0, w)"
        using Inr by (simp add: connectThunkified_def c0)
      moreover have "\<not> dialled host p opts w"
        using Inr False by (simp add: dialled_def q_def [symmetric])
      ultimately show ?thesis by (simp add: con c0)
    next
      case True
      then obtain n where pn: "pn = Integral n" and safe: "\<bar>n\<bar> \<le> MAX_SAFE_INTEGER"
        by (cases pn) auto
      have pq: "parsePortLike (port c0) = Inr (Integral n)" using Inr pn by (simp add: c0)
      show ?thesis
      proof (cases "answers w (clock w) (dial_event opts host n)")
        case (Raise e)
        then have "connectThunkified c0 w =
            (Inl e, c0, w\<lparr>clock := Suc (clock w), trace := trace w @ [dial_event opts host n]\<rparr>)"
          using pq safe by (simp add: connectThunkified_def dial_def call_def dial_event_def c0)
        moreover have "\<not> dialled host p opts w"
          using Inr pn Raise by (simp add: dialled_def q_def [symmetric])
        ultimately show ?thesis by (simp add: con c0)
      next
        case (Return x)
        define c2 where "c2 = fst (adopt c0 w (clock w))"
        define w2 where "w2 = w\<lparr>clock := Suc (clock w),
            trace := trace w @ [dial_event opts host n, SetClosed False, SetConnected True]\<rparr>"
        obtain rh w3 where h: "handshake c2 w2 = (rh, w3)" by (cases "handshake c2 w2") auto
        have c2: "closer c2 = Some (clock w)" "executor c2 = Some (0 < m)" "maxRetryCount c2 = m"
          by (simp_all add: c2_def adopt_connection conf)
        have eq: "connectThunkified c0 w =
           (case rh of
              Inr u \<Rightarrow> (Inr (), c2, w3)
            | Inl error \<Rightarrow>
                (case fst (close c2 w3) of Inl e \<Rightarrow> Inl e | Inr u \<Rightarrow> Inl error,
                 c2\<lparr>isClosed := True, isConnected := False\<rparr>, snd (snd (close c2 w3))))"
          using connectThunkified_dialled [OF pq safe, of w x c2 w w2 rh w3] Return h
          by (simp add: c0 c2_def w2_def)
        have d: "dialled host p opts w"
          using Inr pn safe Return by (simp add: dialled_def q_def [symmetric])
        show ?thesis
          using eq d c2 by (cases rh) (simp_all add: con m_def)
      qed
    qed
  qed
qed

text \<open>
  C6. When no \<open>maxRetryCount\<close> is given the connection keeps its default 0. A connect
  that succeeds leaves an executor created with retry enabled if and only if the
  configured \<open>maxRetryCount\<close> (0 when absent) is greater than 0. The socket, the
  executor and the ceiling are assigned exactly when the port is accepted and the dial
  returns; otherwise there is no socket and no executor, and connect fails.
\<close>

theorem connect_executor:
  "(case connect host p opts w of
      (r, c, w') \<Rightarrow>
        (r = Inr () \<longrightarrow>
           executor c = Some (0 < maxRetryCount c) \<and>
           maxRetryCount c = (case opt_maxRetryCount opts of None \<Rightarrow> 0 | Some m \<Rightarrow> m)) \<and>
        (if dialled host p opts w
         then closer c = Some (clock w) \<and>
              executor c = Some (0 < (case opt_maxRetryCount opts of None \<Rightarrow> 0 | Some m \<Rightarrow> m)) \<and>
              maxRetryCount c = (case opt_maxRetryCount opts of None \<Rightarrow> 0 | Some m \<Rightarrow> m)
         else closer c = None \<and> executor c = None \<and> maxRetryCount c = 0 \<and> r \<noteq> Inr ()))"
  using connect_fields [where host=host and p=p and opts=opts and w=w]
  by (cases "connect host p opts w") (auto split: if_splits)

theorem connect_executor_witness:
  "fst (connect ''redis'' PortUndefined retry_options world_ok) = Inr () \<and>
   executor (fst (snd (connect ''redis'' PortUndefined retry_options world_ok))) = Some True \<and>
   maxRetryCount (fst (snd (connect ''redis'' PortUndefined retry_options world_ok))) = 5 \<and>
   fst (connect ''redis'' PortUndefined no_options world_ok) = Inr () \<and>
   executor (fst (snd (connect ''redis'' PortUndefined no_options world_ok))) = Some False \<and>
   maxRetryCount (fst (snd (connect ''redis'' PortUndefined no_options world_ok))) = 0"
proof -
  have r1: "fst (connect ''redis'' PortUndefined retry_options world_ok) = Inr ()" by code_simp
  have r2: "fst (connect ''redis'' PortUndefined no_options world_ok) = Inr ()" by code_simp
  have o1: "(case opt_maxRetryCount retry_options of None \<Rightarrow> 0 | Some m \<Rightarrow> m) = 5"
    by (simp add: retry_options_def no_options_def)
  have o2: "(case opt_maxRetryCount no_options of None \<Rightarrow> 0 | Some m \<Rightarrow> m) = 0"
    by (simp add: no_options_def)
  from connect_executor [where host="''redis''" and p=PortUndefined and opts=retry_options and w=world_ok] r1 o1
  have a: "executor (fst (snd (connect ''redis'' PortUndefined retry_options world_ok))) = Some True \<and>
           maxRetryCount (fst (snd (connect ''redis'' PortUndefined retry_options world_ok))) = 5"
    by (cases "connect ''redis'' PortUndefined retry_options world_ok") simp
  from connect_executor [where host="''redis''" and p=PortUndefined and opts=no_options and w=world_ok] r2 o2
  have b: "executor (fst (snd (connect ''redis'' PortUndefined no_options world_ok))) = Some False \<and>
           maxRetryCount (fst (snd (connect ''redis'' PortUndefined no_options world_ok))) = 0"
    by (cases "connect ''redis'' PortUndefined no_options world_ok") simp
  from a b r1 r2 show ?thesis by simp
qed

section \<open>Properties of quit\<close>

text \<open>
  C10, as the code has it. Whatever the QUIT exchange gave, \<open>quit\<close> then calls \<open>close()\<close>
  of the connection it wraps, so the closer is always called. The result is that of the
  exchange when that \<open>close()\<close> returns, and the error of \<open>close()\<close> when it raises. A
  connection made by \<open>connect\<close> is then marked closed and not connected, and raises only
  what is not \<open>BadResource\<close>; one made by \<open>create\<close> keeps its flags and raises whatever
  the closer raises.
\<close>

theorem quit_always_closes:
  "exec k w ''QUIT'' [] = (r, k1, w1) \<Longrightarrow>
   (case quit exec k w of
      (r', k', w') \<Rightarrow>
        (case k1 of
           OfConnect c1 \<Rightarrow>
             k' = OfConnect (c1\<lparr>isClosed := True, isConnected := False\<rparr>) \<and>
             trace w' = trace w1 @ closing c1 \<and>
             r' = (case closer c1 of
                     None \<Rightarrow> Inl TypeError
                   | Some sock \<Rightarrow>
                       (case closer_result (answers w1 (clock w1) (CloseSocket sock)) of
                          Inl e \<Rightarrow> Inl e
                        | Inr u \<Rightarrow> r))
         | OfCreate sock \<Rightarrow>
             k' = OfCreate sock \<and>
             trace w' = trace w1 @ [CloseSocket sock] \<and>
             r' = (case answers w1 (clock w1) (CloseSocket sock) of
                     Return x \<Rightarrow> r
                   | Raise e \<Rightarrow> Inl e)))"
proof -
  assume e: "exec k w ''QUIT'' [] = (r, k1, w1)"
  show ?thesis
  proof (cases k1)
    case (OfConnect c1)
    obtain rc c2 w2 where cl: "close c1 w1 = (rc, c2, w2)" by (cases "close c1 w1") auto
    have q: "quit exec k w = (case rc of Inl e \<Rightarrow> Inl e | Inr u \<Rightarrow> r, OfConnect c2, w2)"
      using e cl OfConnect by (cases rc) (simp_all add: quit_def execStatusReply_def)
    show ?thesis
      using close_connection [of c1 w1] close_trace [of c1 w1] close_result [of c1 w1]
      unfolding q cl OfConnect by (simp add: closing_def split: option.split)
  next
    case (OfCreate sock)
    show ?thesis
      using e OfCreate
      by (cases "answers w1 (clock w1) (CloseSocket sock)")
         (simp_all add: quit_def execStatusReply_def call_def)
  qed
qed

theorem quit_always_closes_witness:
  "plain_exec (OfConnect (fst connected_ok)) (snd connected_ok) ''QUIT'' [] =
     (Inr (Status ''OK''), OfConnect (fst connected_ok),
      (snd connected_ok)\<lparr>clock := 2, trace := trace (snd connected_ok) @ [Exec ''QUIT'' []]\<rparr>) \<and>
   fst (quit plain_exec (OfConnect (fst connected_ok)) (snd connected_ok)) = Inr (Status ''OK'') \<and>
   connection_isClosed (fst (snd (quit plain_exec (OfConnect (fst connected_ok)) (snd connected_ok)))) \<and>
   trace (snd (snd (quit plain_exec (OfConnect (fst connected_ok)) (snd connected_ok)))) =
     [Connect ''redis'' 6379, SetClosed False, SetConnected True, Exec ''QUIT'' [],
      SetClosed True, SetConnected False, CloseSocket 0] \<and>
   plain_exec (OfCreate 7) world_created ''QUIT'' [] =
     (Inr (Status ''OK''), OfCreate 7, world_created\<lparr>clock := 1, trace := [Exec ''QUIT'' []]\<rparr>) \<and>
   fst (quit plain_exec (OfCreate 7) world_created) = Inl BadResource \<and>
   \<not> connection_isClosed (fst (snd (quit plain_exec (OfCreate 7) world_created))) \<and>
   trace (snd (snd (quit plain_exec (OfCreate 7) world_created))) = [Exec ''QUIT'' [], CloseSocket 7]"
proof -
  have h: "plain_exec (OfConnect (fst connected_ok)) (snd connected_ok) ''QUIT'' [] =
     (Inr (Status ''OK''), OfConnect (fst connected_ok),
      (snd connected_ok)\<lparr>clock := 2, trace := trace (snd connected_ok) @ [Exec ''QUIT'' []]\<rparr>)"
    by (simp add: connected_ok_eq plain_exec_def call_def world_ok_def)
  have g: "plain_exec (OfCreate 7) world_created ''QUIT'' [] =
     (Inr (Status ''OK''), OfCreate 7, world_created\<lparr>clock := 1, trace := [Exec ''QUIT'' []]\<rparr>)"
    by (simp add: plain_exec_def call_def world_created_def)
  have a: "fst (quit plain_exec (OfConnect (fst connected_ok)) (snd connected_ok)) = Inr (Status ''OK'') \<and>
   connection_isClosed (fst (snd (quit plain_exec (OfConnect (fst connected_ok)) (snd connected_ok)))) \<and>
   trace (snd (snd (quit plain_exec (OfConnect (fst connected_ok)) (snd connected_ok)))) =
     [Connect ''redis'' 6379, SetClosed False, SetConnected True, Exec ''QUIT'' [],
      SetClosed True, SetConnected False, CloseSocket 0]"
    using quit_always_closes [where exec=plain_exec and k="OfConnect (fst connected_ok)"
        and w="snd connected_ok", OF h]
    by (cases "quit plain_exec (OfConnect (fst connected_ok)) (snd connected_ok)")
       (simp add: connected_ok_eq closer_result_def closing_def world_ok_def new_RedisConnection_def)
  have b: "fst (quit plain_exec (OfCreate 7) world_created) = Inl BadResource \<and>
   \<not> connection_isClosed (fst (snd (quit plain_exec (OfCreate 7) world_created))) \<and>
   trace (snd (snd (quit plain_exec (OfCreate 7) world_created))) = [Exec ''QUIT'' [], CloseSocket 7]"
    using quit_always_closes [where exec=plain_exec and k="OfCreate 7" and w=world_created, OF g]
    by (cases "quit plain_exec (OfCreate 7) world_created") (simp add: world_created_def)
  from h g a b show ?thesis by simp
qed

text \<open>
  C10 as stated fails: QUIT is answered \<open>OK\<close>, the closer raises an I/O error, and
  \<open>quit\<close> gives that error in place of the reply.
\<close>

theorem quit_result_replaced_counterexample:
  "fst (plain_exec (OfConnect (fst connected_close_fails)) (snd connected_close_fails) ''QUIT'' [])
     = Inr (Status ''OK'') \<and>
   fst (quit plain_exec (OfConnect (fst connected_close_fails)) (snd connected_close_fails))
     = Inl (Error ''EIO'')"
  by (simp add: connected_close_fails_eq quit_def execStatusReply_def plain_exec_def call_def
      close_def emit_def Let_def world_close_fails_def new_RedisConnection_def)

section \<open>Properties of reconnect\<close>

lemma emit_fields [simp]:
  "answers (emit w e) = answers w" "clock (emit w e) = clock w" "trace (emit w e) = trace w @ [e]"
  by (simp_all add: emit_def)


lemma closing_flags [simp]: "closing (c\<lparr>isClosed := a, isConnected := b\<rparr>) = closing c"
  by (simp add: closing_def)


















text \<open>
  Runs overlap when a dial takes longer than the period: four fires, each run suspended
  at its dial, leave four dials pending and \<open>retryCount\<close> at 0, under a ceiling of 5.
\<close>

lemma runs_overlap:
  "tasks (run_loop retrying_back_at_10
      [Fire, Resume 0, Fire, Resume 1, Fire, Resume 2, Fire, Resume 3]) =
     [DialDone 3 (Return (Status ''OK'')), DialDone 5 (Return (Status ''OK'')),
      DialDone 7 (Return (Status ''OK'')), DialDone 9 (Return (Status ''OK''))] \<and>
   retryCount (conn (run_loop retrying_back_at_10
      [Fire, Resume 0, Fire, Resume 1, Fire, Resume 2, Fire, Resume 3])) = 0"
  by code_simp

end
